theory Spec2Isabelle
  imports Complex_Main "HOL-Library.Signed_Division" "HOL-Library.Multiset"
begin

section \<open>Countdown clock and habit tracker: the client logic of App.js\<close>

text \<open>
  The client is a React application. Its arithmetic and list logic is embedded here as
  HOL functions. Points in time are the millisecond timestamps that \<open>new Date(...)\<close>
  yields (\<open>getTime()\<close>), as integers; the current time \<open>new Date()\<close> is a parameter of
  every function that reads the clock. Component state (\<open>useState\<close>) is passed in and
  returned explicitly; the outcome of an HTTP call or of a confirmation dialog is a
  parameter of the handler that awaits it.
\<close>

subsection \<open>Time remaining of a countdown\<close>

text \<open>
  \<open>differenceInSeconds\<close> of date-fns: the difference of the two timestamps in
  milliseconds, divided by 1000 and truncated towards zero.
\<close>

definition differenceInSeconds :: "int \<Rightarrow> int \<Rightarrow> int" where
  "differenceInSeconds dateLeft dateRight = (dateLeft - dateRight) sdiv 1000"

record time_remaining =
  days :: int
  hours :: int
  minutes :: int
  seconds :: int
  isComplete :: bool

text \<open>
  \<open>Math.floor(a / b)\<close> on integers with a positive divisor is \<open>div\<close>; the remainder
  operator \<open>%\<close> of JavaScript takes the sign of the dividend, which is \<open>smod\<close>.
\<close>

definition calculateTimeRemaining :: "int \<Rightarrow> int \<Rightarrow> time_remaining" where
  "calculateTimeRemaining now targetDate =
     (let diffInSeconds = differenceInSeconds targetDate now
      in if diffInSeconds \<le> 0
         then \<lparr>days = 0, hours = 0, minutes = 0, seconds = 0, isComplete = True\<rparr>
         else \<lparr>days = diffInSeconds div (24 * 60 * 60),
               hours = (diffInSeconds smod (24 * 60 * 60)) div (60 * 60),
               minutes = (diffInSeconds smod (60 * 60)) div 60,
               seconds = diffInSeconds smod 60,
               isComplete = False\<rparr>)"

subsection \<open>The habit form: toggling a custom day\<close>






subsection \<open>Countdowns and the notification check\<close>

record countdown =
  countdown_id :: string
  title :: string
  description :: string
  target_date :: int
  notify_before :: "int option"
  is_timer :: bool
  is_completed :: bool

text \<open>The value of \<open>Notification.permission\<close>.\<close>

datatype permission = Granted | Denied | Default_permission

text \<open>
  The global \<open>Notification\<close> of the browser: absent where the browser has no
  notification interface, and otherwise present with its permission.
\<close>

datatype notification_api = Api_absent | Api_present permission

text \<open>The exception that reading an undeclared global raises.\<close>

datatype js_error = ReferenceError

text \<open>
  What the notification check does to the outside world, in order: a browser
  notification (title, body), the playing of a sound file, and a PUT request (path below
  the API root, body).
\<close>

datatype effect =
    New_notification string string
  | Audio_play string
  | Axios_put string countdown

text \<open>
  \<open>sendNotification\<close> reads \<open>Notification.permission\<close> without a guard: where the
  global is absent the read throws, and nothing of the function runs.
\<close>

definition sendNotification ::
  "notification_api \<Rightarrow> string \<Rightarrow> string \<Rightarrow> js_error + effect list" where
  "sendNotification api ttl body =
     (case api of
        Api_absent \<Rightarrow> Inl ReferenceError
      | Api_present perm \<Rightarrow>
          Inr (if perm = Granted
               then [New_notification ttl body, Audio_play ''/notification.mp3'']
               else []))"

text \<open>\<open>addMinutes\<close> of date-fns on timestamps: a minute is 60000 milliseconds.\<close>

definition addMinutes :: "int \<Rightarrow> int \<Rightarrow> int" where
  "addMinutes date amount = date + amount * 60000"

text \<open>Decimal rendering of an integer, as a template string interpolates it.\<close>

fun string_of_nat :: "nat \<Rightarrow> string" where
  "string_of_nat n =
     (if n < 10 then [char_of (48 + n)]
      else string_of_nat (n div 10) @ [char_of (48 + n mod 10)])"

definition number_to_string :: "int \<Rightarrow> string" where
  "number_to_string i =
     (if i < 0 then CHR ''-'' # string_of_nat (nat (- i)) else string_of_nat (nat i))"

text \<open>
  The body of the \<open>forEach\<close> in \<open>checkNotifications\<close>, for one countdown: the effects
  it performs, and the exception it ends with, if any. An exception of
  \<open>sendNotification\<close> is not caught, so it ends the body at once: the statements after
  the call, the PUT among them, do not run.
  \<open>countdown.notify_before\<close> is used as a condition: it holds when the field is
  present and not zero. The clock is read once for each countdown; the readings of one
  check are taken to be the same instant \<open>now\<close>.
\<close>

definition check_countdown ::
  "notification_api \<Rightarrow> int \<Rightarrow> countdown \<Rightarrow> effect list \<times> js_error option" where
  "check_countdown api now c =
     (case notify_before c of
        None \<Rightarrow> ([], None)
      | Some nb \<Rightarrow>
          if nb \<noteq> 0 \<and> \<not> is_completed c
          then (let targetDate = target_date c;
                    notifyTime = addMinutes targetDate (- nb)
                in case (if now \<ge> notifyTime \<and> now \<le> addMinutes notifyTime 1
                         then sendNotification api
                                (''Countdown Reminder: '' @ title c)
                                (''Your countdown will complete in '' @ number_to_string nb
                                   @ '' minutes!'')
                         else Inr []) of
                     Inl err \<Rightarrow> ([], Some err)
                   | Inr reminded \<Rightarrow>
                       if now \<ge> targetDate \<and> now \<le> addMinutes targetDate 1
                       then (case sendNotification api
                                    (''Countdown Complete: '' @ title c)
                                    (''Your countdown '' @ [CHR 0x22] @ title c @ [CHR 0x22]
                                       @ '' is now complete!'') of
                               Inl err \<Rightarrow> (reminded, Some err)
                             | Inr completed \<Rightarrow>
                                 (reminded @ completed
                                    @ [Axios_put (''/countdowns/'' @ countdown_id c)
                                         (c\<lparr>is_completed := True\<rparr>)],
                                  None))
                       else (reminded, None))
          else ([], None))"

text \<open>
  The \<open>forEach\<close> over the countdowns: an exception in the body for one countdown ends
  the whole check, and the countdowns after it are not looked at.
\<close>

fun checkNotifications ::
  "notification_api \<Rightarrow> int \<Rightarrow> countdown list \<Rightarrow> effect list \<times> js_error option" where
  "checkNotifications api now [] = ([], None)"
| "checkNotifications api now (c # countdowns) =
     (case check_countdown api now c of
        (performed, Some err) \<Rightarrow> (performed, Some err)
      | (performed, None) \<Rightarrow>
          (case checkNotifications api now countdowns of
             (later, outcome) \<Rightarrow> (performed @ later, outcome)))"

text \<open>Recognisers for the effects of one countdown.\<close>

definition is_reminder_for :: "countdown \<Rightarrow> effect \<Rightarrow> bool" where
  "is_reminder_for c e =
     (case e of New_notification ttl body \<Rightarrow> ttl = ''Countdown Reminder: '' @ title c
              | _ \<Rightarrow> False)"

definition is_completion_for :: "countdown \<Rightarrow> effect \<Rightarrow> bool" where
  "is_completion_for c e =
     (case e of New_notification ttl body \<Rightarrow> ttl = ''Countdown Complete: '' @ title c
              | _ \<Rightarrow> False)"


subsection \<open>The home view\<close>

text \<open>
  \<open>filter\<close>, then \<open>sort\<close> with the comparator \<open>a.target_date - b.target_date\<close>
  (a stable sort), then \<open>slice(0, 3)\<close>.
\<close>

definition activeCountdowns :: "int \<Rightarrow> countdown list \<Rightarrow> countdown list" where
  "activeCountdowns now countdowns =
     take 3 (sort_key target_date (filter (\<lambda>c. target_date c > now) countdowns))"

record habit =
  habit_id :: string
  habit_title :: string
  habit_description :: string
  frequency :: string
  custom_days :: "int list option"
  category_id :: "string option"

text \<open>The callback of the filter over the habits; \<open>dayOfWeek\<close> is \<open>getDay()\<close>.\<close>

definition scheduled_today :: "int \<Rightarrow> habit \<Rightarrow> bool" where
  "scheduled_today dayOfWeek h =
     (if frequency h = ''daily'' then True
      else if frequency h = ''weekly'' \<and> dayOfWeek = 1 then True
      else if frequency h = ''custom''
              \<and> (case custom_days h of None \<Rightarrow> False | Some ds \<Rightarrow> dayOfWeek \<in> set ds)
           then True
      else False)"

definition todaysHabits :: "int \<Rightarrow> habit list \<Rightarrow> habit list" where
  "todaysHabits dayOfWeek habits = take 3 (filter (scheduled_today dayOfWeek) habits)"

subsection \<open>Deleting and logging\<close>

text \<open>
  The outcome of an awaited request: fulfilled, or rejected with the status of
  \<open>error.response\<close> when there is a response.
\<close>

datatype http_result = Http_ok | Http_error "nat option"

record category =
  cat_id :: string
  cat_name :: string
  cat_color :: string

text \<open>
  A delete handler is a closure of the render that made it: the array it filters is the
  one \<open>captured\<close> by that render, read before the request is awaited, and the result
  is written over the state, whatever that state has become in the meantime
  (\<open>current\<close>). The handler returns the state after it has run.
\<close>

definition handleDeleteCountdown ::
  "bool \<Rightarrow> http_result \<Rightarrow> string \<Rightarrow> countdown list \<Rightarrow> countdown list \<Rightarrow> countdown list"
  where
  "handleDeleteCountdown confirmed deleted ident captured current =
     (if confirmed
      then (case deleted of
              Http_ok \<Rightarrow> filter (\<lambda>c. countdown_id c \<noteq> ident) captured
            | Http_error status \<Rightarrow> current)
      else current)"

definition handleDeleteHabit ::
  "bool \<Rightarrow> http_result \<Rightarrow> string \<Rightarrow> habit list \<Rightarrow> habit list \<Rightarrow> habit list" where
  "handleDeleteHabit confirmed deleted ident captured current =
     (if confirmed
      then (case deleted of
              Http_ok \<Rightarrow> filter (\<lambda>h. habit_id h \<noteq> ident) captured
            | Http_error status \<Rightarrow> current)
      else current)"

definition handleDeleteCategory ::
  "bool \<Rightarrow> http_result \<Rightarrow> string \<Rightarrow> category list \<Rightarrow> category list \<Rightarrow> category list"
  where
  "handleDeleteCategory confirmed deleted ident captured current =
     (if confirmed
      then (case deleted of
              Http_ok \<Rightarrow> filter (\<lambda>c. cat_id c \<noteq> ident) captured
            | Http_error status \<Rightarrow> current)
      else current)"

text \<open>
  The habits page: the logged-today flags by habit id, with the dialogs shown by
  \<open>alert\<close> and the messages written by \<open>console.error\<close>. The flag is written with
  the functional form of the state setter, so it is applied to the state as it is.
\<close>

record habits_page =
  habitLogs :: "string \<rightharpoonup> bool"
  alerts :: "string list"
  console_errors :: "string list"

definition handleLogCompletion :: "http_result \<Rightarrow> string \<Rightarrow> habits_page \<Rightarrow> habits_page" where
  "handleLogCompletion posted habitId page =
     (case posted of
        Http_ok \<Rightarrow> page\<lparr>habitLogs := (habitLogs page)(habitId \<mapsto> True)\<rparr>
      | Http_error status \<Rightarrow>
          if status = Some 400
          then page\<lparr>alerts := alerts page
                      @ [''You'' @ [CHR 0x27] @ ''ve already logged this habit today!'']\<rparr>
          else page\<lparr>console_errors :=
                      console_errors page @ [''Error logging habit completion:'']\<rparr>)"

subsection \<open>Statistics\<close>

text \<open>
  The record the stats endpoint returns for a habit. The streaks and the number of
  completions are counts. The completion rate is a JavaScript number, a double: its type
  is the parameter \<open>'d\<close>, and the functions that compute with it take the operations
  on doubles as parameters, so that nothing is assumed of their rounding. The pie chart
  of one habit is stated over exact numbers.
\<close>

record 'd habit_stats =
  total_completions :: nat
  completion_rate :: 'd
  current_streak :: nat
  longest_streak :: nat

record pie_dataset =
  data :: "real list"
  backgroundColor :: "string list"
  borderColor :: "string list"
  borderWidth :: nat

record pie_chart =
  labels :: "string list"
  datasets :: "pie_dataset list"

definition pieData :: "real habit_stats \<Rightarrow> pie_chart" where
  "pieData stats =
     \<lparr>labels = [''Completed'', ''Missed''],
      datasets =
        [\<lparr>data = [real (total_completions stats), 100 - completion_rate stats],
          backgroundColor = [''#4ade80'', ''#f87171''],
          borderColor = [''#22c55e'', ''#ef4444''],
          borderWidth = 1\<rparr>]\<rparr>"

text \<open>
  \<open>habitStats\<close> is an object keyed by habit id, kept as the list of its entries.
\<close>

type_synonym 'd habit_stats_object = "(string \<times> 'd habit_stats) list"

definition Object_keys :: "'d habit_stats_object \<Rightarrow> string list" where
  "Object_keys obj = map fst obj"

definition Object_values :: "'d habit_stats_object \<Rightarrow> 'd habit_stats list" where
  "Object_values obj = map snd obj"

record 'd overall_stats =
  averageCompletionRate :: 'd
  totalStreaks :: nat
  longestStreak :: nat

text \<open>
  One round of the \<open>forEach\<close> over the three running totals; \<open>add\<close> is the addition
  of doubles.
\<close>

definition add_stat ::
  "('d \<Rightarrow> 'd \<Rightarrow> 'd) \<Rightarrow> 'd habit_stats \<Rightarrow> 'd \<times> nat \<times> nat \<Rightarrow> 'd \<times> nat \<times> nat" where
  "add_stat add stat acc =
     (case acc of (totalCompletionRate, streaks, longest) \<Rightarrow>
        (add totalCompletionRate (completion_rate stat),
         streaks + current_streak stat,
         max longest (longest_streak stat)))"

text \<open>
  \<open>add\<close> and \<open>quot\<close> are the addition and the division of doubles, and
  \<open>of_count\<close> is the double of a count (a length, or the literal 0).
\<close>

definition calculateOverallStats ::
  "('d \<Rightarrow> 'd \<Rightarrow> 'd) \<Rightarrow> ('d \<Rightarrow> 'd \<Rightarrow> 'd) \<Rightarrow> (nat \<Rightarrow> 'd)
     \<Rightarrow> 'd habit_stats_object \<Rightarrow> 'd overall_stats" where
  "calculateOverallStats add quot of_count habitStats =
     (if length (Object_keys habitStats) = 0
      then \<lparr>averageCompletionRate = of_count 0, totalStreaks = 0, longestStreak = 0\<rparr>
      else (case fold (add_stat add) (Object_values habitStats) (of_count 0, 0, 0) of
              (totalCompletionRate, streaks, longest) \<Rightarrow>
                \<lparr>averageCompletionRate =
                   quot totalCompletionRate (of_count (length (Object_keys habitStats))),
                 totalStreaks = streaks,
                 longestStreak = longest\<rparr>))"

section \<open>Properties\<close>

subsection \<open>Time remaining\<close>

lemma smod_pos_eq_mod:
  fixes d k :: int
  assumes "0 < d" and "0 < k"
  shows "d smod k = d mod k"
  using assms by (simp add: signed_modulo_int_def)

lemma sum_chain:
  fixes d :: int
  assumes "a + m1 = d" and "b + m2 = m1" and "m2 = m3" and "c + m4 = m3" and "m4 = m5"
  shows "a + b + c + m5 = d"
  using assms by simp

lemma calc_sum:
  fixes d :: int
  shows "d div 86400 * 86400 + (d mod 86400) div 3600 * 3600 + (d mod 3600) div 60 * 60
           + d mod 60 = d"
proof (rule sum_chain)
  show "d div 86400 * 86400 + d mod 86400 = d"
    by (rule div_mult_mod_eq)
  show "(d mod 86400) div 3600 * 3600 + (d mod 86400) mod 3600 = d mod 86400"
    by (rule div_mult_mod_eq)
  show "(d mod 86400) mod 3600 = d mod 3600"
    by (rule mod_mod_cancel) simp
  show "(d mod 3600) div 60 * 60 + (d mod 3600) mod 60 = d mod 3600"
    by (rule div_mult_mod_eq)
  show "(d mod 3600) mod 60 = d mod 60"
    by (rule mod_mod_cancel) simp
qed

lemma hours_bound:
  fixes d :: int
  shows "0 \<le> (d mod 86400) div 3600 \<and> (d mod 86400) div 3600 < 24"
proof -
  have "0 \<le> d mod 86400" "d mod 86400 < 86400" by simp_all
  then show ?thesis by (simp add: div_less_iff_less_mult pos_imp_zdiv_nonneg_iff)
qed

lemma minutes_bound:
  fixes d :: int
  shows "0 \<le> (d mod 3600) div 60 \<and> (d mod 3600) div 60 < 60"
proof -
  have "0 \<le> d mod 3600" "d mod 3600 < 3600" by simp_all
  then show ?thesis by (simp add: div_less_iff_less_mult pos_imp_zdiv_nonneg_iff)
qed

lemma calculateTimeRemaining_past:
  "differenceInSeconds targetDate now \<le> 0 \<Longrightarrow>
     calculateTimeRemaining now targetDate
       = \<lparr>days = 0, hours = 0, minutes = 0, seconds = 0, isComplete = True\<rparr>"
  by (simp add: calculateTimeRemaining_def)

lemma calculateTimeRemaining_future:
  assumes "0 < differenceInSeconds targetDate now"
  shows "calculateTimeRemaining now targetDate
       = \<lparr>days = differenceInSeconds targetDate now div 86400,
          hours = (differenceInSeconds targetDate now mod 86400) div 3600,
          minutes = (differenceInSeconds targetDate now mod 3600) div 60,
          seconds = differenceInSeconds targetDate now mod 60,
          isComplete = False\<rparr>"
proof -
  define d where "d = differenceInSeconds targetDate now"
  have pos: "0 < d" using assms by (simp only: d_def)
  have a: "d smod 86400 = d mod 86400"
    by (rule smod_pos_eq_mod [OF pos]) simp
  have b: "d smod 3600 = d mod 3600"
    by (rule smod_pos_eq_mod [OF pos]) simp
  have c: "d smod 60 = d mod 60"
    by (rule smod_pos_eq_mod [OF pos]) simp
  have n: "\<not> d \<le> 0" using pos by simp
  have e: "(24 * 60 * 60 :: int) = 86400" "(60 * 60 :: int) = 3600" by simp_all
  show ?thesis
    unfolding calculateTimeRemaining_def Let_def d_def [symmetric]
    by (simp only: e n if_False a b c)
qed

text \<open>
  Claim C4. For every target and current time, with \<open>d\<close> the whole-second difference
  target minus now: if \<open>d \<le> 0\<close> the result is all zeros with \<open>isComplete\<close> true; if
  \<open>d > 0\<close> then \<open>isComplete\<close> is false, days is \<open>d div 86400\<close>, hours is
  \<open>(d mod 86400) div 3600\<close>, minutes is \<open>(d mod 3600) div 60\<close>, seconds is \<open>d mod 60\<close>,
  the four add up to \<open>d\<close> again, and hours stay below 24, minutes and seconds below 60.
\<close>

theorem calculateTimeRemaining_correct:
  assumes "d = differenceInSeconds targetDate now"
    and "r = calculateTimeRemaining now targetDate"
  shows "(d \<le> 0 \<longrightarrow>
            r = \<lparr>days = 0, hours = 0, minutes = 0, seconds = 0, isComplete = True\<rparr>)
       \<and> (0 < d \<longrightarrow>
            isComplete r = False
          \<and> days r = d div 86400
          \<and> hours r = (d mod 86400) div 3600
          \<and> minutes r = (d mod 3600) div 60
          \<and> seconds r = d mod 60
          \<and> days r * 86400 + hours r * 3600 + minutes r * 60 + seconds r = d
          \<and> 0 \<le> days r
          \<and> 0 \<le> hours r \<and> hours r < 24
          \<and> 0 \<le> minutes r \<and> minutes r < 60
          \<and> 0 \<le> seconds r \<and> seconds r < 60)"
proof (intro conjI impI)
  assume "d \<le> 0"
  then show "r = \<lparr>days = 0, hours = 0, minutes = 0, seconds = 0, isComplete = True\<rparr>"
    unfolding assms by (rule calculateTimeRemaining_past)
next
  assume pos: "0 < d"
  then have r: "r = \<lparr>days = d div 86400, hours = (d mod 86400) div 3600,
                      minutes = (d mod 3600) div 60, seconds = d mod 60,
                      isComplete = False\<rparr>"
    unfolding assms by (rule calculateTimeRemaining_future)
  show "isComplete r = False" by (simp only: r time_remaining.select_convs)
  show dd: "days r = d div 86400" by (simp only: r time_remaining.select_convs)
  show hh: "hours r = (d mod 86400) div 3600" by (simp only: r time_remaining.select_convs)
  show mm: "minutes r = (d mod 3600) div 60" by (simp only: r time_remaining.select_convs)
  show ss: "seconds r = d mod 60" by (simp only: r time_remaining.select_convs)
  show "days r * 86400 + hours r * 3600 + minutes r * 60 + seconds r = d"
    unfolding dd hh mm ss by (rule calc_sum)
  show "0 \<le> days r" unfolding dd using pos by (simp add: pos_imp_zdiv_nonneg_iff)
  show "0 \<le> hours r" unfolding hh using hours_bound [of d] by (rule conjunct1)
  show "hours r < 24" unfolding hh using hours_bound [of d] by (rule conjunct2)
  show "0 \<le> minutes r" unfolding mm using minutes_bound [of d] by (rule conjunct1)
  show "minutes r < 60" unfolding mm using minutes_bound [of d] by (rule conjunct2)
  show "0 \<le> seconds r" unfolding ss by simp
  show "seconds r < 60" unfolding ss by simp
qed

text \<open>One day, two hours, three minutes and four seconds ahead; and a target in the past.\<close>

theorem calculateTimeRemaining_correct_witness:
  "calculateTimeRemaining 0 93784000
     = \<lparr>days = 1, hours = 2, minutes = 3, seconds = 4, isComplete = False\<rparr>
   \<and> calculateTimeRemaining 5000 0
     = \<lparr>days = 0, hours = 0, minutes = 0, seconds = 0, isComplete = True\<rparr>"
proof -
  have d1: "differenceInSeconds 93784000 0 = 93784"
    by (simp add: differenceInSeconds_def signed_divide_int_def)
  have d2: "differenceInSeconds 0 5000 = - 5"
    by (simp add: differenceInSeconds_def signed_divide_int_def)
  have future: "(0::int) < 93784" and past: "- 5 \<le> (0::int)" by simp_all
  from calculateTimeRemaining_correct [OF d1 [symmetric] refl] future
  have "days (calculateTimeRemaining 0 93784000) = 1"
    and "hours (calculateTimeRemaining 0 93784000) = 2"
    and "minutes (calculateTimeRemaining 0 93784000) = 3"
    and "seconds (calculateTimeRemaining 0 93784000) = 4"
    and "isComplete (calculateTimeRemaining 0 93784000) = False"
    by simp_all
  then have one: "calculateTimeRemaining 0 93784000
     = \<lparr>days = 1, hours = 2, minutes = 3, seconds = 4, isComplete = False\<rparr>"
    by (cases "calculateTimeRemaining 0 93784000") simp
  from calculateTimeRemaining_correct [OF d2 [symmetric] refl] past
  have two: "calculateTimeRemaining 5000 0
     = \<lparr>days = 0, hours = 0, minutes = 0, seconds = 0, isComplete = True\<rparr>"
    by simp
  from one two show ?thesis by (rule conjI)
qed

subsection \<open>Toggling a custom day\<close>










subsection \<open>The notification check\<close>

lemma check_countdown_absent:
  "fst (check_countdown Api_absent now c) = []"
  by (cases "notify_before c")
     (auto simp: check_countdown_def sendNotification_def Let_def)

lemma check_countdown_present_outcome:
  "snd (check_countdown (Api_present perm) now c) = None"
  by (cases "notify_before c")
     (auto simp: check_countdown_def sendNotification_def Let_def)

lemma checkNotifications_absent:
  "fst (checkNotifications Api_absent now countdowns) = []"
proof (induction countdowns)
  case Nil
  show ?case by simp
next
  case (Cons c cs)
  with check_countdown_absent [of now c] show ?case
    by (cases "check_countdown Api_absent now c";
        cases "checkNotifications Api_absent now cs")
       (auto split: option.splits)
qed

lemma checkNotifications_present:
  "checkNotifications (Api_present perm) now countdowns
     = (concat (map (\<lambda>c. fst (check_countdown (Api_present perm) now c)) countdowns), None)"
proof (induction countdowns)
  case Nil
  show ?case by simp
next
  case (Cons c cs)
  with check_countdown_present_outcome [of perm now c] show ?case
    by (cases "check_countdown (Api_present perm) now c") (auto split: option.splits)
qed

lemma checkNotifications_segments:
  "fst (checkNotifications api now countdowns)
     = concat (map (\<lambda>c. fst (check_countdown api now c)) countdowns)"
  by (cases api)
     (simp_all add: checkNotifications_absent checkNotifications_present
        check_countdown_absent)






text \<open>
  Claim C2, as the code has it. What the check does over a list of countdowns is, in the
  order of the list, what its body does for each of them. For each countdown, a reminder
  notification is shown if and only if the notification interface is present with the
  permission granted, \<open>notify_before\<close> is present and not zero, the countdown is not
  completed, and the current time lies between the target time minus \<open>notify_before\<close>
  minutes and one minute later, both ends included. A completion notification is shown if
  and only if the interface is present with the permission granted, \<open>notify_before\<close>
  is present and not zero, the countdown is not completed, and the current time lies
  between the target time and one minute later, both ends included.
\<close>

theorem check_countdown_notifications:
  "fst (checkNotifications api now countdowns)
     = concat (map (\<lambda>c. fst (check_countdown api now c)) countdowns)
   \<and> (list_ex (is_reminder_for c) (fst (check_countdown api now c)) \<longleftrightarrow>
      api = Api_present Granted
      \<and> (\<exists>nb. notify_before c = Some nb \<and> nb \<noteq> 0
             \<and> target_date c - nb * 60000 \<le> now
             \<and> now \<le> target_date c - nb * 60000 + 60000)
      \<and> \<not> is_completed c)
   \<and> (list_ex (is_completion_for c) (fst (check_countdown api now c)) \<longleftrightarrow>
      api = Api_present Granted
      \<and> (\<exists>nb. notify_before c = Some nb \<and> nb \<noteq> 0)
      \<and> \<not> is_completed c
      \<and> target_date c \<le> now \<and> now \<le> target_date c + 60000)"
proof -
  have iffs: "(list_ex (is_reminder_for c) (fst (check_countdown api now c)) \<longleftrightarrow>
      api = Api_present Granted
      \<and> (\<exists>nb. notify_before c = Some nb \<and> nb \<noteq> 0
             \<and> target_date c - nb * 60000 \<le> now
             \<and> now \<le> target_date c - nb * 60000 + 60000)
      \<and> \<not> is_completed c)
   \<and> (list_ex (is_completion_for c) (fst (check_countdown api now c)) \<longleftrightarrow>
      api = Api_present Granted
      \<and> (\<exists>nb. notify_before c = Some nb \<and> nb \<noteq> 0)
      \<and> \<not> is_completed c
      \<and> target_date c \<le> now \<and> now \<le> target_date c + 60000)"
  proof (cases api)
    case Api_absent
    then show ?thesis by (simp add: check_countdown_absent)
  next
    case (Api_present perm)
    show ?thesis
    proof (cases "notify_before c")
      case None
      then show ?thesis by (simp add: check_countdown_def)
    next
      case (Some nb)
      then show ?thesis
        unfolding Api_present
        by (auto simp: check_countdown_def Let_def addMinutes_def
            sendNotification_def is_reminder_for_def is_completion_for_def)
    qed
  qed
  from checkNotifications_segments [of api now countdowns] iffs show ?thesis
    by (rule conjI)
qed

text \<open>
  Two countdowns, the second with a reminder five minutes ahead of its target: at the
  start of its reminder window the check over both shows the reminder of the second, and
  no completion.
\<close>

theorem check_countdown_notifications_witness:
  "list_ex
     (is_reminder_for
        \<lparr>countdown_id = ''b'', title = ''Lunch'', description = ''Eat'',
         target_date = 600000, notify_before = Some 5, is_timer = False,
         is_completed = False\<rparr>)
     (fst (checkNotifications (Api_present Granted) 300000
        [\<lparr>countdown_id = ''a'', title = ''Launch'', description = ''Go'',
          target_date = 900000, notify_before = Some 5, is_timer = False,
          is_completed = False\<rparr>,
         \<lparr>countdown_id = ''b'', title = ''Lunch'', description = ''Eat'',
          target_date = 600000, notify_before = Some 5, is_timer = False,
          is_completed = False\<rparr>]))
   \<and> \<not> list_ex
     (is_completion_for
        \<lparr>countdown_id = ''b'', title = ''Lunch'', description = ''Eat'',
         target_date = 600000, notify_before = Some 5, is_timer = False,
         is_completed = False\<rparr>)
     (fst (check_countdown (Api_present Granted) 300000
        \<lparr>countdown_id = ''b'', title = ''Lunch'', description = ''Eat'',
         target_date = 600000, notify_before = Some 5, is_timer = False,
         is_completed = False\<rparr>))"
proof -
  let ?a = "\<lparr>countdown_id = ''a'', title = ''Launch'', description = ''Go'',
          target_date = 900000, notify_before = Some 5, is_timer = False,
          is_completed = False\<rparr>"
  let ?b = "\<lparr>countdown_id = ''b'', title = ''Lunch'', description = ''Eat'',
         target_date = 600000, notify_before = Some 5, is_timer = False,
         is_completed = False\<rparr>"
  from check_countdown_notifications [of "Api_present Granted" 300000 "[?a, ?b]" ?b]
  have seg: "fst (checkNotifications (Api_present Granted) 300000 [?a, ?b])
      = fst (check_countdown (Api_present Granted) 300000 ?a)
        @ fst (check_countdown (Api_present Granted) 300000 ?b)"
    and rem: "list_ex (is_reminder_for ?b) (fst (check_countdown (Api_present Granted) 300000 ?b))"
    and com: "\<not> list_ex (is_completion_for ?b)
                (fst (check_countdown (Api_present Granted) 300000 ?b))"
    by simp_all
  from rem have "list_ex (is_reminder_for ?b)
      (fst (checkNotifications (Api_present Granted) 300000 [?a, ?b]))"
    unfolding seg by (simp only: list_ex_append simp_thms)
  from this com show ?thesis by (rule conjI)
qed

text \<open>
  Claim C2 as stated puts no condition on the permission. With the permission denied, or
  not yet asked for, a countdown inside its reminder window gets no notification.
\<close>

theorem check_countdown_notifications_counterexample:
  "notify_before
     \<lparr>countdown_id = ''a'', title = ''Launch'', description = ''Go'', target_date = 600000,
      notify_before = Some 5, is_timer = False, is_completed = False\<rparr> = Some 5
   \<and> \<not> is_completed
     \<lparr>countdown_id = ''a'', title = ''Launch'', description = ''Go'', target_date = 600000,
      notify_before = Some 5, is_timer = False, is_completed = False\<rparr>
   \<and> addMinutes 600000 (- 5) \<le> 300000
   \<and> 300000 \<le> addMinutes (addMinutes 600000 (- 5)) 1
   \<and> checkNotifications (Api_present Denied) 300000
       [\<lparr>countdown_id = ''a'', title = ''Launch'', description = ''Go'', target_date = 600000,
         notify_before = Some 5, is_timer = False, is_completed = False\<rparr>] = ([], None)
   \<and> checkNotifications (Api_present Default_permission) 300000
       [\<lparr>countdown_id = ''a'', title = ''Launch'', description = ''Go'', target_date = 600000,
         notify_before = Some 5, is_timer = False, is_completed = False\<rparr>] = ([], None)"
  by (simp add: check_countdown_def sendNotification_def addMinutes_def Let_def)

subsection \<open>Logging a completion\<close>

text \<open>
  Claim C3. When the POST succeeds the handler sets the logged-today flag of the habit to
  true and changes nothing else. When it fails, the flags are left as they were; and when
  it fails with status 400 the page is unchanged except for one more alert, with the text
  \<open>You've already logged this habit today!\<close>
\<close>

theorem handleLogCompletion_flag:
  "(posted = Http_ok \<longrightarrow>
      handleLogCompletion posted habitId page
        = page\<lparr>habitLogs := (habitLogs page)(habitId \<mapsto> True)\<rparr>)
   \<and> (posted \<noteq> Http_ok \<longrightarrow>
      habitLogs (handleLogCompletion posted habitId page) = habitLogs page)
   \<and> (posted = Http_error (Some 400) \<longrightarrow>
      handleLogCompletion posted habitId page
        = page\<lparr>alerts := alerts page
                  @ [''You'' @ [CHR 0x27] @ ''ve already logged this habit today!'']\<rparr>)"
  by (cases posted) (simp_all add: handleLogCompletion_def)

text \<open>A habit not yet logged: a success, a rejection with 400, and a network failure.\<close>

theorem handleLogCompletion_flag_witness:
  "habitLogs (handleLogCompletion Http_ok ''h1''
      \<lparr>habitLogs = [''h1'' \<mapsto> False], alerts = [], console_errors = []\<rparr>) ''h1''
     = Some True
   \<and> habitLogs (handleLogCompletion (Http_error (Some 400)) ''h1''
      \<lparr>habitLogs = [''h1'' \<mapsto> False], alerts = [], console_errors = []\<rparr>) ''h1''
     = Some False
   \<and> alerts (handleLogCompletion (Http_error (Some 400)) ''h1''
      \<lparr>habitLogs = [''h1'' \<mapsto> False], alerts = [], console_errors = []\<rparr>)
     = [''You'' @ [CHR 0x27] @ ''ve already logged this habit today!'']
   \<and> habitLogs (handleLogCompletion (Http_error None) ''h1''
      \<lparr>habitLogs = [''h1'' \<mapsto> False], alerts = [], console_errors = []\<rparr>) ''h1''
     = Some False"
  using handleLogCompletion_flag [of Http_ok "''h1''"
          "\<lparr>habitLogs = [''h1'' \<mapsto> False], alerts = [], console_errors = []\<rparr>"]
        handleLogCompletion_flag [of "Http_error (Some 400)" "''h1''"
          "\<lparr>habitLogs = [''h1'' \<mapsto> False], alerts = [], console_errors = []\<rparr>"]
        handleLogCompletion_flag [of "Http_error None" "''h1''"
          "\<lparr>habitLogs = [''h1'' \<mapsto> False], alerts = [], console_errors = []\<rparr>"]
  by simp

subsection \<open>The home view\<close>

text \<open>
  Claim C5. A habit is selected for today if and only if its frequency is \<open>daily\<close>, or
  it is \<open>weekly\<close> and the day of the week is 1 (Monday), or it is \<open>custom\<close> and its
  list of custom days is present and contains the day of the week. The habits shown are
  the first three selected ones, so at most three.
\<close>

theorem todaysHabits_frequency:
  "(scheduled_today dayOfWeek h \<longleftrightarrow>
      frequency h = ''daily''
      \<or> (frequency h = ''weekly'' \<and> dayOfWeek = 1)
      \<or> (frequency h = ''custom''
          \<and> (\<exists>ds. custom_days h = Some ds \<and> dayOfWeek \<in> set ds)))
   \<and> todaysHabits dayOfWeek habits = take 3 (filter (scheduled_today dayOfWeek) habits)
   \<and> length (todaysHabits dayOfWeek habits) \<le> 3"
  by (cases "custom_days h")
     (auto simp: scheduled_today_def todaysHabits_def)

text \<open>On a Wednesday (day 3), of a daily, a weekly and two custom habits.\<close>

theorem todaysHabits_frequency_witness:
  "todaysHabits 3
     [\<lparr>habit_id = ''1'', habit_title = ''Read'', habit_description = ''A'',
       frequency = ''daily'', custom_days = None, category_id = None\<rparr>,
      \<lparr>habit_id = ''2'', habit_title = ''Plan'', habit_description = ''B'',
       frequency = ''weekly'', custom_days = None, category_id = None\<rparr>,
      \<lparr>habit_id = ''3'', habit_title = ''Swim'', habit_description = ''C'',
       frequency = ''custom'', custom_days = Some [1, 3], category_id = None\<rparr>,
      \<lparr>habit_id = ''4'', habit_title = ''Run'', habit_description = ''D'',
       frequency = ''custom'', custom_days = Some [2], category_id = None\<rparr>]
   = [\<lparr>habit_id = ''1'', habit_title = ''Read'', habit_description = ''A'',
       frequency = ''daily'', custom_days = None, category_id = None\<rparr>,
      \<lparr>habit_id = ''3'', habit_title = ''Swim'', habit_description = ''C'',
       frequency = ''custom'', custom_days = Some [1, 3], category_id = None\<rparr>]"
  by (simp add: todaysHabits_frequency)

text \<open>
  Claim C7. The upcoming countdowns are countdowns of the list whose target time is
  strictly after the current time; they are in ascending order of target time; there are
  three of them, or all the future ones when those are fewer; and they are the front of
  an ascending arrangement of exactly the future countdowns.
\<close>

theorem activeCountdowns_upcoming:
  "set (activeCountdowns now countdowns) \<subseteq> {c \<in> set countdowns. now < target_date c}
   \<and> sorted (map target_date (activeCountdowns now countdowns))
   \<and> length (activeCountdowns now countdowns)
       = min 3 (length (filter (\<lambda>c. now < target_date c) countdowns))
   \<and> (\<exists>rest.
         mset (activeCountdowns now countdowns @ rest)
           = mset (filter (\<lambda>c. now < target_date c) countdowns)
         \<and> sorted (map target_date (activeCountdowns now countdowns @ rest)))"
proof -
  let ?future = "filter (\<lambda>c. now < target_date c) countdowns"
  let ?sorted = "sort_key target_date ?future"
  have def: "activeCountdowns now countdowns = take 3 ?sorted"
    by (simp add: activeCountdowns_def)
  have "set (take 3 ?sorted) \<subseteq> set ?sorted" by (rule set_take_subset)
  then have sub: "set (take 3 ?sorted) \<subseteq> {c \<in> set countdowns. now < target_date c}"
    by auto
  have all: "sorted (map target_date ?sorted)" by (rule sorted_sort_key)
  then have "sorted (take 3 (map target_date ?sorted))" by (rule sorted_wrt_take)
  then have srt: "sorted (map target_date (take 3 ?sorted))" by (simp only: take_map)
  have len: "length (take 3 ?sorted) = min 3 (length ?future)"
    by (simp add: min.commute)
  have "mset (take 3 ?sorted @ drop 3 ?sorted) = mset ?future
        \<and> sorted (map target_date (take 3 ?sorted @ drop 3 ?sorted))"
    using all by (simp only: append_take_drop_id mset_sort simp_thms)
  then have ex: "\<exists>rest. mset (take 3 ?sorted @ rest) = mset ?future
        \<and> sorted (map target_date (take 3 ?sorted @ rest))" by (rule exI)
  from sub srt len ex show ?thesis unfolding def by (intro conjI)
qed

text \<open>Five countdowns, one of them due right now: the three nearest future ones remain.\<close>

theorem activeCountdowns_upcoming_witness:
  "map countdown_id (activeCountdowns 100
     [\<lparr>countdown_id = ''a'', title = ''A'', description = ''x'', target_date = 500,
       notify_before = None, is_timer = False, is_completed = False\<rparr>,
      \<lparr>countdown_id = ''b'', title = ''B'', description = ''x'', target_date = 100,
       notify_before = None, is_timer = False, is_completed = False\<rparr>,
      \<lparr>countdown_id = ''c'', title = ''C'', description = ''x'', target_date = 200,
       notify_before = None, is_timer = False, is_completed = False\<rparr>,
      \<lparr>countdown_id = ''d'', title = ''D'', description = ''x'', target_date = 400,
       notify_before = None, is_timer = False, is_completed = False\<rparr>,
      \<lparr>countdown_id = ''e'', title = ''E'', description = ''x'', target_date = 300,
       notify_before = None, is_timer = False, is_completed = False\<rparr>])
   = [''c'', ''e'', ''d'']"
  using activeCountdowns_upcoming [of 100
     "[\<lparr>countdown_id = ''a'', title = ''A'', description = ''x'', target_date = 500,
       notify_before = None, is_timer = False, is_completed = False\<rparr>,
      \<lparr>countdown_id = ''b'', title = ''B'', description = ''x'', target_date = 100,
       notify_before = None, is_timer = False, is_completed = False\<rparr>,
      \<lparr>countdown_id = ''c'', title = ''C'', description = ''x'', target_date = 200,
       notify_before = None, is_timer = False, is_completed = False\<rparr>,
      \<lparr>countdown_id = ''d'', title = ''D'', description = ''x'', target_date = 400,
       notify_before = None, is_timer = False, is_completed = False\<rparr>,
      \<lparr>countdown_id = ''e'', title = ''E'', description = ''x'', target_date = 300,
       notify_before = None, is_timer = False, is_completed = False\<rparr>]"]
  by (simp add: activeCountdowns_def)

subsection \<open>Deleting\<close>

text \<open>
  When the list has not changed since the handler was made, a confirmed and accepted
  delete leaves the list without the entries of the given id; a refused confirmation or
  a failed request leaves the list as it is.
\<close>

lemma delete_without_overlap:
  "handleDeleteCountdown True Http_ok ident countdowns countdowns
     = filter (\<lambda>c. countdown_id c \<noteq> ident) countdowns
   \<and> handleDeleteHabit True Http_ok ident habits habits
     = filter (\<lambda>h. habit_id h \<noteq> ident) habits
   \<and> handleDeleteCategory True Http_ok ident categories categories
     = filter (\<lambda>c. cat_id c \<noteq> ident) categories
   \<and> handleDeleteCountdown False deleted ident captured countdowns = countdowns
   \<and> handleDeleteCountdown confirmed (Http_error status) ident captured countdowns
     = countdowns"
  by (simp add: handleDeleteCountdown_def handleDeleteHabit_def handleDeleteCategory_def)

text \<open>
  Claim C8 fails where two deletes overlap. Three categories are on the page, and the
  deletes of the first and of the second are confirmed before either request has
  returned, so both handlers hold the list of three. The first write leaves the second
  and third category. The second write then puts the first category back: it leaves the
  first and the third, where the previous list without the second category is the third
  alone.
\<close>

theorem delete_overlapping_restores_entry:
  "handleDeleteCategory True Http_ok ''a''
     [\<lparr>cat_id = ''a'', cat_name = ''Health'', cat_color = ''4f46e5''\<rparr>,
      \<lparr>cat_id = ''b'', cat_name = ''Work'', cat_color = ''22c55e''\<rparr>,
      \<lparr>cat_id = ''c'', cat_name = ''Home'', cat_color = ''ef4444''\<rparr>]
     [\<lparr>cat_id = ''a'', cat_name = ''Health'', cat_color = ''4f46e5''\<rparr>,
      \<lparr>cat_id = ''b'', cat_name = ''Work'', cat_color = ''22c55e''\<rparr>,
      \<lparr>cat_id = ''c'', cat_name = ''Home'', cat_color = ''ef4444''\<rparr>]
   = [\<lparr>cat_id = ''b'', cat_name = ''Work'', cat_color = ''22c55e''\<rparr>,
      \<lparr>cat_id = ''c'', cat_name = ''Home'', cat_color = ''ef4444''\<rparr>]
   \<and> handleDeleteCategory True Http_ok ''b''
     [\<lparr>cat_id = ''a'', cat_name = ''Health'', cat_color = ''4f46e5''\<rparr>,
      \<lparr>cat_id = ''b'', cat_name = ''Work'', cat_color = ''22c55e''\<rparr>,
      \<lparr>cat_id = ''c'', cat_name = ''Home'', cat_color = ''ef4444''\<rparr>]
     [\<lparr>cat_id = ''b'', cat_name = ''Work'', cat_color = ''22c55e''\<rparr>,
      \<lparr>cat_id = ''c'', cat_name = ''Home'', cat_color = ''ef4444''\<rparr>]
   = [\<lparr>cat_id = ''a'', cat_name = ''Health'', cat_color = ''4f46e5''\<rparr>,
      \<lparr>cat_id = ''c'', cat_name = ''Home'', cat_color = ''ef4444''\<rparr>]
   \<and> filter (\<lambda>c. cat_id c \<noteq> ''b'')
     [\<lparr>cat_id = ''b'', cat_name = ''Work'', cat_color = ''22c55e''\<rparr>,
      \<lparr>cat_id = ''c'', cat_name = ''Home'', cat_color = ''ef4444''\<rparr>]
   = [\<lparr>cat_id = ''c'', cat_name = ''Home'', cat_color = ''ef4444''\<rparr>]"
  by (simp add: handleDeleteCategory_def)

subsection \<open>Statistics\<close>

lemma add_stat_apply:
  "add_stat add stat (a, b, c)
     = (add a (completion_rate stat), b + current_streak stat, max c (longest_streak stat))"
  by (simp add: add_stat_def)

lemma fold_add_stat:
  "fold (add_stat add) xs (a, b, c) =
     (foldl add a (map completion_rate xs),
      b + sum_list (map current_streak xs),
      (if xs = [] then c else max c (Max (set (map longest_streak xs)))))"
proof (induction xs arbitrary: a b c)
  case Nil
  show ?case by simp
next
  case (Cons x xs)
  show ?case
    by (cases "xs = []") (simp_all add: Cons.IH add_stat_apply max.assoc algebra_simps)
qed

text \<open>
  Claim C6, with the sum and the quotient as the code computes them. Over no stats at all
  the three overall figures are 0. Over at least one, the average completion rate is the
  sum of the completion rates, added up from 0 in the order of the values, divided by
  their number; the total of streaks is the sum of the current streaks; and the longest
  streak is the maximum of the longest streaks. This holds whatever the addition and the
  division of the numbers are.
\<close>

theorem calculateOverallStats_aggregate:
  "(habitStats = [] \<longrightarrow>
      calculateOverallStats add quot of_count habitStats
        = \<lparr>averageCompletionRate = of_count 0, totalStreaks = 0, longestStreak = 0\<rparr>)
   \<and> (habitStats \<noteq> [] \<longrightarrow>
      averageCompletionRate (calculateOverallStats add quot of_count habitStats)
        = quot (foldl add (of_count 0) (map completion_rate (Object_values habitStats)))
            (of_count (length (Object_values habitStats)))
      \<and> totalStreaks (calculateOverallStats add quot of_count habitStats)
        = sum_list (map current_streak (Object_values habitStats))
      \<and> longestStreak (calculateOverallStats add quot of_count habitStats)
        = Max (set (map longest_streak (Object_values habitStats))))"
  by (simp add: calculateOverallStats_def Object_keys_def Object_values_def fold_add_stat)

text \<open>No habits; and two habits at 50 and 75, in an arithmetic whose division rounds.\<close>

theorem calculateOverallStats_aggregate_witness:
  "calculateOverallStats (+) (div) int []
     = \<lparr>averageCompletionRate = 0, totalStreaks = 0, longestStreak = 0\<rparr>
   \<and> averageCompletionRate (calculateOverallStats (+) (div) int
        [(''h1'', \<lparr>total_completions = 3, completion_rate = 50, current_streak = 2,
                  longest_streak = 4\<rparr>),
         (''h2'', \<lparr>total_completions = 9, completion_rate = 75, current_streak = 5,
                  longest_streak = 7\<rparr>)]) = 62
   \<and> totalStreaks (calculateOverallStats (+) (div) int
        [(''h1'', \<lparr>total_completions = 3, completion_rate = 50, current_streak = 2,
                  longest_streak = 4\<rparr>),
         (''h2'', \<lparr>total_completions = 9, completion_rate = 75, current_streak = 5,
                  longest_streak = 7\<rparr>)]) = 7
   \<and> longestStreak (calculateOverallStats (+) (div) int
        [(''h1'', \<lparr>total_completions = 3, completion_rate = 50, current_streak = 2,
                  longest_streak = 4\<rparr>),
         (''h2'', \<lparr>total_completions = 9, completion_rate = 75, current_streak = 5,
                  longest_streak = 7\<rparr>)]) = 7"
  using calculateOverallStats_aggregate [of "[]" "(+)" "(div)" int]
        calculateOverallStats_aggregate [of
          "[(''h1'', \<lparr>total_completions = 3, completion_rate = 50, current_streak = 2,
                  longest_streak = 4\<rparr>),
            (''h2'', \<lparr>total_completions = 9, completion_rate = 75, current_streak = 5,
                  longest_streak = 7\<rparr>)]" "(+)" "(div)" int]
  by (simp add: Object_values_def)

text \<open>
  Claim C9. The pie chart of a habit has the two slices \<open>total_completions\<close> and
  \<open>100 - completion_rate\<close>, labelled Completed and Missed. The first slice is a count:
  it stays the same whatever the completion rate is. The two slices need not add up
  to 100.
\<close>

theorem pieData_slices:
  "map data (datasets (pieData stats))
     = [[real (total_completions stats), 100 - completion_rate stats]]
   \<and> labels (pieData stats) = [''Completed'', ''Missed'']
   \<and> map data (datasets (pieData (stats\<lparr>completion_rate := r\<rparr>)))
     = [[real (total_completions stats), 100 - r]]
   \<and> (\<exists>s. sum_list (concat (map data (datasets (pieData s)))) \<noteq> 100)"
proof -
  have "sum_list (concat (map data (datasets (pieData
          \<lparr>total_completions = 12, completion_rate = 40, current_streak = 2,
           longest_streak = 5\<rparr>)))) \<noteq> 100"
    by (simp add: pieData_def)
  then have "\<exists>s. sum_list (concat (map data (datasets (pieData s)))) \<noteq> 100" by (rule exI)
  then show ?thesis by (simp add: pieData_def)
qed

end
